theory Spec2Isabelle
  imports Complex_Main
begin

section \<open>AutoMixEngine: numbers and values\<close>

text \<open>
  The engine is the class \<open>AutoMixEngine\<close> of \<open>js/automixEngine.js\<close>. JavaScript numbers are
  modelled as real numbers: every arithmetic step is the exact one, without the rounding of
  IEEE doubles and without the rounding of a \<open>Float32Array\<close> store. The one non-number a
  computation of the engine can produce from finite inputs is \<open>NaN\<close> (from \<open>0 / 0\<close>); a sample
  that may be \<open>NaN\<close> is a \<open>real option\<close>, with \<open>None\<close> for \<open>NaN\<close>.
\<close>

datatype jsValue = JUndefined | JBool bool | JNumber real | JString string

datatype jsError = TypeError | NotSupportedError | RenderingError

text \<open>Comparisons of possibly-\<open>NaN\<close> numbers: a comparison with \<open>NaN\<close> is false.\<close>

fun numLe :: "real option \<Rightarrow> real option \<Rightarrow> bool" where
  "numLe (Some a) (Some b) = (a \<le> b)"
| "numLe _ _ = False"

fun numGe :: "real option \<Rightarrow> real option \<Rightarrow> bool" where
  "numGe (Some a) (Some b) = (b \<le> a)"
| "numGe _ _ = False"

definition nonDecreasing :: "real option list \<Rightarrow> bool" where
  "nonDecreasing curve = sorted_wrt numLe curve"

definition nonIncreasing :: "real option list \<Rightarrow> bool" where
  "nonIncreasing curve = sorted_wrt numGe curve"

section \<open>createSCurveFade\<close>

text \<open>
  \<^verbatim>\<open>
  createSCurveFade(startValue, endValue, numPoints) {
      const curve = new Float32Array(numPoints);
      const isFadeIn = endValue > startValue;
      for (let i = 0; i < numPoints; i++) {
          const x = i / (numPoints - 1);
          const scaledX = isFadeIn ? x : 1 - x;
          const y = 0.5 * (1 - Math.cos(scaledX * Math.PI));
          curve[i] = startValue + (endValue - startValue) * y;
      }
      return curve;
  }
  \<close>
  \<open>sCurveSample\<close> is the body of the loop at index \<open>i\<close>. With \<open>numPoints = 1\<close> the quotient
  is \<open>0 / 0\<close>, so the one sample is \<open>NaN\<close>. The loop writes every index \<open>0 \<le> i < numPoints\<close>
  once, in order, so the array returned is the list of the samples.
\<close>

definition sCurveSample :: "real \<Rightarrow> real \<Rightarrow> nat \<Rightarrow> nat \<Rightarrow> real option" where
  "sCurveSample startValue endValue numPoints i =
     (let isFadeIn = endValue > startValue in
      if numPoints = 1 then None
      else
        let x = real i / (real numPoints - 1);
            scaledX = (if isFadeIn then x else 1 - x);
            y = 0.5 * (1 - cos (scaledX * pi))
        in Some (startValue + (endValue - startValue) * y))"

definition createSCurveFade :: "real \<Rightarrow> real \<Rightarrow> nat \<Rightarrow> real option list" where
  "createSCurveFade startValue endValue numPoints =
     map (sCurveSample startValue endValue numPoints) [0..<numPoints]"

text \<open>
  The function declares three parameters and its body never reads \<open>arguments\<close>; a call with
  a fourth argument, as \<open>startAutoMix\<close> makes with \<open>'out'\<close> and \<open>'in'\<close>, binds the first three
  and drops the fourth.
\<close>

definition createSCurveFade4 :: "real \<Rightarrow> real \<Rightarrow> nat \<Rightarrow> jsValue \<Rightarrow> real option list" where
  "createSCurveFade4 startValue endValue numPoints direction =
     createSCurveFade startValue endValue numPoints"

definition CURVE_RESOLUTION :: nat where
  "CURVE_RESOLUTION = 512"

definition FADE_TIME :: real where
  "FADE_TIME = 15 / 1000"

section \<open>Tracks, analyses and the engine's state\<close>

text \<open>
  A track object carries a decoded buffer, an analysis that may be absent, and a file name.
  An analysis carries a tempo and a beat array that may be absent (\<open>undefined\<close>); an empty
  array is present, and truthy in JavaScript.
\<close>

record audioBuffer =
  duration :: real
  numberOfChannels :: nat
  sampleRate :: real

record analysisData =
  bpm :: real
  beats :: "real list option"

record track =
  buffer :: audioBuffer
  analysis :: "analysisData option"
  fileName :: string

text \<open>The report object of \<open>simulateMixSession\<close>, its nested fields flattened.\<close>

record mixReport =
  report_mixPoint :: real
  report_crossfadeDuration :: real
  trackA_BPM :: real
  trackB_BPM :: real
  resamplingNeeded :: bool
  resampledBPM :: "real option"
  outgoingBeat :: "real option"
  incomingBeat :: "real option"
  finalOffset :: "real option"

text \<open>Console output, one constructor per message of the source, with the values it prints.\<close>

datatype logEntry =
    LogDebugMode bool
  | WarnAlreadyMixing
  | LogStarting
  | LogResampling real real
  | WarnStartInPast
  | LogMixScheduled real real real string string real
  | WarnNoBeatData
  | LogAligning real real
  | LogOfflineRender real
  | LogAnimation real
  | LogSimulation mixReport

text \<open>
  Requests to the audio context, in the order made. A node is named by the number the
  context gave it when it was created.
\<close>

datatype audioCall =
    CreateBufferSource nat
  | CreateGain nat
  | SetBuffer nat audioBuffer
  | Connect nat nat
  | ConnectDestination nat
  | SetValueAtTime nat real real
  | SetValueCurveAtTime nat "real option list" real real
  | SetTargetAtTime nat real real real
  | StartSource nat real real
  | StopSource nat real

text \<open>An offline render: channels, length in frames, sample rate, playback rate, source.\<close>

record renderRequest =
  render_channels :: nat
  render_length :: int
  render_sampleRate :: real
  render_playbackRate :: real
  render_source :: audioBuffer

text \<open>
  The state: the fields of the engine object, and what the engine has asked of its
  collaborators (the audio context, offline contexts, anime.js, the timer queue, the console).
  A pending timer is the \<open>setTimeout\<close> callback that clears \<open>isMixing\<close>, kept with its delay
  in milliseconds.
\<close>

record engine =
  isMixing :: bool
  debugMode :: bool
  sourceNodeA :: "nat option"
  sourceNodeB :: "nat option"
  gainNodeA :: "nat option"
  gainNodeB :: "nat option"
  nodeCount :: nat
  audioCalls :: "audioCall list"
  offlineRenders :: "renderRequest list"
  animations :: "(real \<times> real) list"
  timers :: "real list"
  console :: "logEntry list"

text \<open>The constructor: \<open>isMixing\<close> and \<open>debugMode\<close> false, the four nodes \<open>null\<close>.\<close>

definition newEngine :: engine where
  "newEngine = \<lparr> isMixing = False, debugMode = False,
       sourceNodeA = None, sourceNodeB = None, gainNodeA = None, gainNodeB = None,
       nodeCount = 0, audioCalls = [], offlineRenders = [], animations = [], timers = [],
       console = [] \<rparr>"

text \<open>\<open>if (this.debugMode) console.log(...)\<close> and \<open>console.warn(...)\<close>.\<close>

definition debugLog :: "logEntry \<Rightarrow> engine \<Rightarrow> engine" where
  "debugLog entry w = (if debugMode w then w\<lparr>console := console w @ [entry]\<rparr> else w)"

section \<open>JavaScript array and operator semantics used by the engine\<close>

text \<open>
  \<open>Array.prototype.reduce\<close> without an initial value: a \<open>TypeError\<close> on an empty array,
  otherwise a left fold that starts from the first element.
\<close>

fun reduce :: "('a \<Rightarrow> 'a \<Rightarrow> 'a) \<Rightarrow> 'a list \<Rightarrow> jsError + 'a" where
  "reduce f [] = Inl TypeError"
| "reduce f (x # xs) = Inr (foldl f x xs)"

text \<open>\<open>xs[i]\<close>: \<open>undefined\<close> (\<open>None\<close>) out of range.\<close>

definition index :: "'a list \<Rightarrow> nat \<Rightarrow> 'a option" where
  "index xs i = (if i < length xs then Some (xs ! i) else None)"

text \<open>
  \<open>a || b\<close> on numbers that may be \<open>undefined\<close>: \<open>undefined\<close> and \<open>0\<close> are falsy, every other
  real number is truthy.
\<close>

fun orElse :: "real option \<Rightarrow> real option \<Rightarrow> real option" where
  "orElse (Some x) b = (if x \<noteq> 0 then Some x else b)"
| "orElse None b = b"

fun orNumber :: "real option \<Rightarrow> real \<Rightarrow> real" where
  "orNumber (Some x) d = (if x \<noteq> 0 then x else d)"
| "orNumber None d = d"

section \<open>calculateBeatAlignedStartOffset\<close>

text \<open>
  \<^verbatim>\<open>
  calculateBeatAlignedStartOffset(analysisA, analysisB, mixPoint) {
      if (!analysisA || !analysisA.beats || !analysisB || !analysisB.beats) {
          if(this.debugMode) console.warn("... Falling back to 0 offset.");
          return 0;
      }
      const outgoingBeats = analysisA.beats;
      const incomingBeats = analysisB.beats;
      let closestBeatTime = outgoingBeats.reduce((prev, curr) => {
          return (Math.abs(curr - mixPoint) < Math.abs(prev - mixPoint) ? curr : prev);
      });
      let firstIncomingBeat = incomingBeats.find(beat => beat > 0.1) || incomingBeats[0] || 0;
      if(this.debugMode) console.log(`Aligning to outgoing beat at ...`);
      return firstIncomingBeat;
  }
  \<close>
\<close>

definition closerTo :: "real \<Rightarrow> real \<Rightarrow> real \<Rightarrow> real" where
  "closerTo mixPoint prev cur =
     (if \<bar>cur - mixPoint\<bar> < \<bar>prev - mixPoint\<bar> then cur else prev)"

text \<open>The callback of \<open>find\<close>, \<open>beat => beat > 0.1\<close>.\<close>

definition laterThanTenth :: "real \<Rightarrow> bool" where
  "laterThanTenth beat = (beat > 0.1)"

definition beatsOf :: "analysisData option \<Rightarrow> real list option" where
  "beatsOf a = (case a of None \<Rightarrow> None | Some d \<Rightarrow> beats d)"

definition calculateBeatAlignedStartOffset ::
  "analysisData option \<Rightarrow> analysisData option \<Rightarrow> real \<Rightarrow> engine \<Rightarrow> (jsError + real) \<times> engine"
where
  "calculateBeatAlignedStartOffset analysisA analysisB mixPoint w =
     (case (beatsOf analysisA, beatsOf analysisB) of
        (Some outgoingBeats, Some incomingBeats) \<Rightarrow>
          (case reduce (closerTo mixPoint) outgoingBeats of
             Inl err \<Rightarrow> (Inl err, w)
           | Inr closestBeatTime \<Rightarrow>
               let firstIncomingBeat =
                     orNumber (orElse (find laterThanTenth incomingBeats)
                                      (index incomingBeats 0)) 0
               in (Inr firstIncomingBeat,
                   debugLog (LogAligning closestBeatTime firstIncomingBeat) w))
      | _ \<Rightarrow> (Inr 0, debugLog WarnNoBeatData w))"

section \<open>The collaborators, as seen by one call\<close>

text \<open>
  What a call reads from outside the engine: the crossfade duration the playlist manager
  returns, the audio context's \<open>currentTime\<close> when the call reads it, whether the global
  \<open>anime\<close> is defined, and how an offline render ends. \<open>startRendering\<close> is the outcome of
  building the offline context and awaiting \<open>offlineCtx.startRendering()\<close>: the rendered
  buffer, or the error the constructor threw or the promise was rejected with. The audio
  context itself accepts every request; its requests are recorded in \<open>audioCalls\<close>.
\<close>

record environment =
  getCrossfadeDuration :: real
  currentTime :: real
  animeDefined :: bool
  startRendering :: "jsError + audioBuffer"

definition createNode :: "(nat \<Rightarrow> audioCall) \<Rightarrow> engine \<Rightarrow> nat \<times> engine" where
  "createNode kind w =
     (nodeCount w,
      w\<lparr>nodeCount := Suc (nodeCount w), audioCalls := audioCalls w @ [kind (nodeCount w)]\<rparr>)"

definition request :: "engine \<Rightarrow> audioCall \<Rightarrow> engine" where
  "request w call = w\<lparr>audioCalls := audioCalls w @ [call]\<rparr>"

section \<open>resampleBufferForTempo\<close>

text \<open>
  \<^verbatim>\<open>
  async resampleBufferForTempo(sourceBuffer, analysisA, analysisB) {
      const tempoRatio = analysisA.bpm / analysisB.bpm;
      const newDuration = sourceBuffer.duration / tempoRatio;
      const offlineCtx = new OfflineAudioContext(sourceBuffer.numberOfChannels,
          Math.ceil(newDuration * sourceBuffer.sampleRate), sourceBuffer.sampleRate);
      const bufferSource = offlineCtx.createBufferSource();
      bufferSource.buffer = sourceBuffer;
      bufferSource.playbackRate.value = tempoRatio;
      bufferSource.connect(offlineCtx.destination);
      bufferSource.start(0);
      if (this.debugMode) console.log(`... Ratio: ${tempoRatio.toFixed(3)}`);
      return offlineCtx.startRendering();
  }
  \<close>
  The function has no \<open>try\<close>: an error of the constructor or a rejected render is the
  rejection of the promise returned. With a tempo of \<open>0\<close> on either side a quotient is
  infinite or \<open>NaN\<close>, the frame count converts to \<open>0\<close> and the constructor throws; that case
  is written out, since a quotient by \<open>0\<close> is \<open>0\<close> in HOL.
\<close>

definition resampleBufferForTempo ::
  "environment \<Rightarrow> audioBuffer \<Rightarrow> analysisData \<Rightarrow> analysisData \<Rightarrow> engine
     \<Rightarrow> (jsError + audioBuffer) \<times> engine"
where
  "resampleBufferForTempo env sourceBuffer analysisA analysisB w =
     (if bpm analysisA = 0 \<or> bpm analysisB = 0 then (Inl NotSupportedError, w)
      else
        let tempoRatio = bpm analysisA / bpm analysisB;
            newDuration = duration sourceBuffer / tempoRatio;
            offlineCtx = \<lparr> render_channels = numberOfChannels sourceBuffer,
                           render_length = \<lceil>newDuration * sampleRate sourceBuffer\<rceil>,
                           render_sampleRate = sampleRate sourceBuffer,
                           render_playbackRate = tempoRatio,
                           render_source = sourceBuffer \<rparr>;
            w1 = w\<lparr>offlineRenders := offlineRenders w @ [offlineCtx]\<rparr>
        in (startRendering env, debugLog (LogOfflineRender tempoRatio) w1))"

section \<open>syncCrossfadeAnimation\<close>

text \<open>
  \<^verbatim>\<open>
  syncCrossfadeAnimation(startTime, duration) {
      if (typeof anime !== 'undefined') {
          const delay = (startTime - this.audioContext.currentTime) * 1000;
          if (this.debugMode) console.log(`... ${delay.toFixed(0)}ms delay.`);
          anime({ ..., delay: delay > 0 ? delay : 0, duration: duration * 1000, ... });
      }
  }
  \<close>
  The call is made in the same synchronous run as the read of \<open>now\<close> in \<open>startAutoMix\<close>, so
  it reads the same clock value.
\<close>

definition syncCrossfadeAnimation :: "environment \<Rightarrow> real \<Rightarrow> real \<Rightarrow> engine \<Rightarrow> engine" where
  "syncCrossfadeAnimation env startTime fadeLength w =
     (if animeDefined env then
        let delay = (startTime - currentTime env) * 1000;
            w1 = debugLog (LogAnimation delay) w
        in w1\<lparr>animations := animations w1 @ [(if delay > 0 then delay else 0, fadeLength * 1000)]\<rparr>
      else w)"

section \<open>startAutoMix\<close>

text \<open>
  Step 2 of \<open>startAutoMix\<close> (lines 57 to 62): the next track's buffer, resampled when the
  tempo difference is more than 3% and less than 25% of the outgoing tempo. The \<open>await\<close> has
  no \<open>try\<close> around it, so a rejected resampling is the result of the step.
\<close>

definition tempoResampling ::
  "environment \<Rightarrow> track \<Rightarrow> analysisData \<Rightarrow> analysisData \<Rightarrow> engine
     \<Rightarrow> (jsError + audioBuffer) \<times> engine"
where
  "tempoResampling env nextTrack analysisA analysisB w =
     (let bufferB = buffer nextTrack;
          bpmDifference = \<bar>bpm analysisA - bpm analysisB\<bar>
      in if bpmDifference > bpm analysisA * 0.03 \<and> bpmDifference < bpm analysisA * 0.25
         then resampleBufferForTempo env bufferB analysisA analysisB
                (debugLog (LogResampling (bpm analysisB) (bpm analysisA)) w)
         else (Inr bufferB, w))"

text \<open>
  Steps 5 to 8 of \<open>startAutoMix\<close> and its timer (lines 77 to 120): four fresh nodes, stored
  in the engine, wired and scheduled; the animation; the debug message; the timer that
  clears \<open>isMixing\<close> after \<open>(mixStartTime - now + crossfadeDuration) * 1000\<close> milliseconds.
\<close>

definition scheduleCrossfade ::
  "environment \<Rightarrow> track \<Rightarrow> track \<Rightarrow> audioBuffer \<Rightarrow> audioBuffer \<Rightarrow> real \<Rightarrow> real \<Rightarrow> real \<Rightarrow> real
     \<Rightarrow> engine \<Rightarrow> engine"
where
  "scheduleCrossfade env currentTrack nextTrack bufferA bufferB startTimeB now mixStartTime
       crossfadeDuration w =
     (let (sA, w1) = createNode CreateBufferSource w;
          (sB, w2) = createNode CreateBufferSource w1;
          (gA, w3) = createNode CreateGain w2;
          (gB, w4) = createNode CreateGain w3;
          w5 = w4\<lparr>sourceNodeA := Some sA, sourceNodeB := Some sB,
                   gainNodeA := Some gA, gainNodeB := Some gB\<rparr>;
          fadeOutCurve = createSCurveFade4 1 0.0001 CURVE_RESOLUTION (JString ''out'');
          fadeInCurve = createSCurveFade4 0.0001 1 CURVE_RESOLUTION (JString ''in'');
          w6 = foldl request w5
                 [SetBuffer sA bufferA,
                  SetBuffer sB bufferB,
                  Connect sA gA, ConnectDestination gA,
                  Connect sB gB, ConnectDestination gB,
                  SetValueAtTime gA 1.0 mixStartTime,
                  SetValueCurveAtTime gA fadeOutCurve mixStartTime crossfadeDuration,
                  SetValueAtTime gB 0.0001 mixStartTime,
                  SetValueCurveAtTime gB fadeInCurve mixStartTime crossfadeDuration,
                  StartSource sB mixStartTime startTimeB,
                  SetTargetAtTime gB 1.0 mixStartTime FADE_TIME,
                  SetTargetAtTime gA 0 (mixStartTime + crossfadeDuration - FADE_TIME) FADE_TIME,
                  StopSource sA (mixStartTime + crossfadeDuration)];
          w7 = syncCrossfadeAnimation env mixStartTime crossfadeDuration w6;
          w8 = debugLog (LogMixScheduled mixStartTime (mixStartTime - now) crossfadeDuration
                           (fileName currentTrack) (fileName nextTrack) startTimeB) w7
      in w8\<lparr>timers := timers w8 @ [(mixStartTime - now + crossfadeDuration) * 1000]\<rparr>)"

text \<open>
  \<^verbatim>\<open>
  async startAutoMix(currentTrack, nextTrack, currentPosition) {
      if (this.isMixing) {
          if (this.debugMode) console.warn('... Mix is already in progress.');
          return false;
      }
      this.isMixing = true;
      if (this.debugMode) console.log('... Starting AutoMix...');
      const crossfadeDuration = this.playlistManager.getCrossfadeDuration();
      const mixPoint = currentTrack.buffer.duration - crossfadeDuration;
      const bufferA = currentTrack.buffer;
      let bufferB = nextTrack.buffer;
      const analysisA = currentTrack.analysis;
      const analysisB = nextTrack.analysis;
      const bpmDifference = Math.abs(analysisA.bpm - analysisB.bpm);
      if (bpmDifference > analysisA.bpm * 0.03 && bpmDifference < analysisA.bpm * 0.25) {
          if (this.debugMode) console.log(`... Resampling next track from ...`);
          bufferB = await this.resampleBufferForTempo(bufferB, analysisA, analysisB);
      }
      const startTimeB = this.calculateBeatAlignedStartOffset(analysisA, analysisB, mixPoint);
      const now = this.audioContext.currentTime;
      const mixStartTime = now + (mixPoint - currentPosition);
      if (mixStartTime <= now) {
          if (this.debugMode) console.warn('... Mix start time is in the past. Aborting.');
          this.isMixing = false;
          return false;
      }
      ... steps 5 to 8 ...
      setTimeout(() => { this.isMixing = false; }, (mixStartTime - now + crossfadeDuration) * 1000);
      return true;
  }
  \<close>
  The result is \<open>Inr\<close> of the value the promise resolves to, or \<open>Inl\<close> of the error it is
  rejected with; the second component is the state the call leaves. Reading \<open>bpm\<close> of an
  absent analysis is a \<open>TypeError\<close>. There is no \<open>try\<close> in the function: an error of the
  awaited resampling or of the beat alignment leaves it at once. The call is taken as one
  step: while it waits for the render \<open>isMixing\<close> is set, so no other \<open>startAutoMix\<close> gets
  past the guard.
\<close>

definition startAutoMix ::
  "environment \<Rightarrow> track \<Rightarrow> track \<Rightarrow> real \<Rightarrow> engine \<Rightarrow> (jsError + bool) \<times> engine"
where
  "startAutoMix env currentTrack nextTrack currentPosition w =
     (if isMixing w then (Inr False, debugLog WarnAlreadyMixing w)
      else
        let w1 = debugLog LogStarting (w\<lparr>isMixing := True\<rparr>);
            crossfadeDuration = getCrossfadeDuration env;
            mixPoint = duration (buffer currentTrack) - crossfadeDuration;
            bufferA = buffer currentTrack
        in case (analysis currentTrack, analysis nextTrack) of
             (Some analysisA, Some analysisB) \<Rightarrow>
               (case tempoResampling env nextTrack analysisA analysisB w1 of
                  (Inl err, w2) \<Rightarrow> (Inl err, w2)
                | (Inr bufferB, w2) \<Rightarrow>
                    (case calculateBeatAlignedStartOffset (Some analysisA) (Some analysisB)
                            mixPoint w2 of
                       (Inl err, w3) \<Rightarrow> (Inl err, w3)
                     | (Inr startTimeB, w3) \<Rightarrow>
                         let now = currentTime env;
                             mixStartTime = now + (mixPoint - currentPosition)
                         in if mixStartTime \<le> now
                            then (Inr False, (debugLog WarnStartInPast w3)\<lparr>isMixing := False\<rparr>)
                            else (Inr True,
                                  scheduleCrossfade env currentTrack nextTrack bufferA bufferB
                                    startTimeB now mixStartTime crossfadeDuration w3)))
           | _ \<Rightarrow> (Inl TypeError, w1))"

section \<open>simulateMixSession, setDebugMode, testAutoMix\<close>

text \<open>
  \<^verbatim>\<open>
  async simulateMixSession(currentTrack, nextTrack) {
      if (!currentTrack || !nextTrack || !currentTrack.analysis || !nextTrack.analysis) {
          return { error: "Missing track data or analysis." };
      }
      const crossfadeDuration = this.playlistManager.getCrossfadeDuration();
      const mixPoint = currentTrack.buffer.duration - crossfadeDuration;
      const analysisA = currentTrack.analysis;
      let analysisB = nextTrack.analysis;
      const report = { ... resamplingNeeded: false, resampledBPM: null ... };
      const bpmDifference = Math.abs(analysisA.bpm - analysisB.bpm);
      if (bpmDifference > analysisA.bpm * 0.03 && bpmDifference < analysisA.bpm * 0.25) {
          report.tempo.resamplingNeeded = true;
          report.tempo.resampledBPM = analysisA.bpm;
          analysisB = { ...analysisB, bpm: analysisA.bpm };
      }
      const offset = this.calculateBeatAlignedStartOffset(analysisA, analysisB, mixPoint);
      report.beatAlignment.finalOffset = offset;
      if(analysisA.beats) report.beatAlignment.outgoingBeat = analysisA.beats.reduce(...);
      if(analysisB.beats) report.beatAlignment.incomingBeat =
          analysisB.beats.find(b => b > 0.1) || analysisB.beats[0];
      if (this.debugMode) console.log("... Simulation Report:", report);
      return report;
  }
  \<close>
\<close>

datatype simulation = SimulationError string | Report mixReport

definition simulateMixSession ::
  "environment \<Rightarrow> track option \<Rightarrow> track option \<Rightarrow> engine \<Rightarrow> (jsError + simulation) \<times> engine"
where
  "simulateMixSession env currentTrack nextTrack w =
     (case (currentTrack, nextTrack) of
        (Some trackA, Some trackB) \<Rightarrow>
          (case (analysis trackA, analysis trackB) of
             (Some analysisA, Some analysisB0) \<Rightarrow>
               let crossfadeDuration = getCrossfadeDuration env;
                   mixPoint = duration (buffer trackA) - crossfadeDuration;
                   report = \<lparr> report_mixPoint = mixPoint,
                              report_crossfadeDuration = crossfadeDuration,
                              trackA_BPM = bpm analysisA,
                              trackB_BPM = bpm analysisB0,
                              resamplingNeeded = False,
                              resampledBPM = None,
                              outgoingBeat = None,
                              incomingBeat = None,
                              finalOffset = None \<rparr>;
                   bpmDifference = \<bar>bpm analysisA - bpm analysisB0\<bar>;
                   (report1, analysisB) =
                     (if bpmDifference > bpm analysisA * 0.03 \<and> bpmDifference < bpm analysisA * 0.25
                      then (report\<lparr>resamplingNeeded := True, resampledBPM := Some (bpm analysisA)\<rparr>,
                            analysisB0\<lparr>bpm := bpm analysisA\<rparr>)
                      else (report, analysisB0))
               in (case calculateBeatAlignedStartOffset (Some analysisA) (Some analysisB) mixPoint w of
                     (Inl err, w1) \<Rightarrow> (Inl err, w1)
                   | (Inr offset, w1) \<Rightarrow>
                       let report2 = report1\<lparr>finalOffset := Some offset\<rparr> in
                       (case (case beats analysisA of
                                None \<Rightarrow> Inr report2
                              | Some outgoingBeats \<Rightarrow>
                                  (case reduce (closerTo mixPoint) outgoingBeats of
                                     Inl err \<Rightarrow> Inl err
                                   | Inr closest \<Rightarrow> Inr (report2\<lparr>outgoingBeat := Some closest\<rparr>))) of
                          Inl err \<Rightarrow> (Inl err, w1)
                        | Inr report3 \<Rightarrow>
                            let report4 =
                                  (case beats analysisB of
                                     None \<Rightarrow> report3
                                   | Some incomingBeats \<Rightarrow>
                                       report3\<lparr>incomingBeat :=
                                         orElse (find laterThanTenth incomingBeats)
                                                (index incomingBeats 0)\<rparr>)
                            in (Inr (Report report4), debugLog (LogSimulation report4) w1)))
           | _ \<Rightarrow> (Inr (SimulationError ''Missing track data or analysis.''), w))
      | _ \<Rightarrow> (Inr (SimulationError ''Missing track data or analysis.''), w))"

text \<open>\<open>setDebugMode(enabled)\<close> stores the flag and always prints a message.\<close>

definition setDebugMode :: "bool \<Rightarrow> engine \<Rightarrow> engine" where
  "setDebugMode enabled w =
     w\<lparr>debugMode := enabled, console := console w @ [LogDebugMode enabled]\<rparr>"

section \<open>The engine over time\<close>

text \<open>
  What can happen to an engine: a call of one of its methods, or a pending timer firing
  (the callback \<open>() => { this.isMixing = false; }\<close>). \<open>testAutoMix\<close> only reads. \<open>run\<close> applies
  a sequence of such events, each method call with the collaborators' answers it meets.
\<close>

datatype event =
    StartAutoMix environment track track real
  | SimulateMixSession environment "track option" "track option"
  | SetDebugMode bool
  | TestAutoMix
  | TimerFires nat

fun step :: "engine \<Rightarrow> event \<Rightarrow> engine" where
  "step w (StartAutoMix env currentTrack nextTrack currentPosition) =
     snd (startAutoMix env currentTrack nextTrack currentPosition w)"
| "step w (SimulateMixSession env currentTrack nextTrack) =
     snd (simulateMixSession env currentTrack nextTrack w)"
| "step w (SetDebugMode enabled) = setDebugMode enabled w"
| "step w TestAutoMix = w"
| "step w (TimerFires i) =
     (if i < length (timers w)
      then w\<lparr>isMixing := False, timers := take i (timers w) @ drop (Suc i) (timers w)\<rparr>
      else w)"

definition run :: "event list \<Rightarrow> engine \<Rightarrow> engine" where
  "run events w = foldl step w events"

text \<open>
  \<open>sameAudioState w w'\<close>: from \<open>w\<close> to \<open>w'\<close> no node was created or stored in the engine, no
  request went to the audio context, no animation was started and no timer was set.
\<close>

definition sameAudioState :: "engine \<Rightarrow> engine \<Rightarrow> bool" where
  "sameAudioState w w' =
     (sourceNodeA w' = sourceNodeA w \<and> sourceNodeB w' = sourceNodeB w
      \<and> gainNodeA w' = gainNodeA w \<and> gainNodeB w' = gainNodeB w
      \<and> nodeCount w' = nodeCount w \<and> audioCalls w' = audioCalls w
      \<and> animations w' = animations w \<and> timers w' = timers w)"

text \<open>
  A session is outstanding from the successful \<open>startAutoMix\<close> that set its timer until that
  timer fires. \<open>sessionInvariant\<close>: at most one session is outstanding, and while one is,
  \<open>isMixing\<close> is set.
\<close>

definition sessionInvariant :: "engine \<Rightarrow> bool" where
  "sessionInvariant w = (length (timers w) \<le> 1 \<and> (timers w \<noteq> [] \<longrightarrow> isMixing w))"

text \<open>
  Inputs for the worked examples: a 200 second stereo track with a given tempo and beat
  array, and collaborators that answer a crossfade duration of 10 seconds, the clock value 5
  and a given outcome of the offline render.
\<close>

definition exampleTrack :: "real \<Rightarrow> real list option \<Rightarrow> track" where
  "exampleTrack tempo beatTimes =
     \<lparr> buffer = \<lparr> duration = 200, numberOfChannels = 2, sampleRate = 44100 \<rparr>,
       analysis = Some \<lparr> bpm = tempo, beats = beatTimes \<rparr>,
       fileName = ''track.mp3'' \<rparr>"

definition exampleEnvironment :: "jsError + audioBuffer \<Rightarrow> environment" where
  "exampleEnvironment rendering =
     \<lparr> getCrossfadeDuration = 10, currentTime = 5, animeDefined = True,
       startRendering = rendering \<rparr>"

text \<open>
  The resampling condition in the words of the specification, to compare the two inline
  conditions of the source with.
\<close>

definition isResamplingNeeded :: "real \<Rightarrow> real \<Rightarrow> bool" where
  "isResamplingNeeded bpmA bpmB =
     (0.03 * bpmA < \<bar>bpmA - bpmB\<bar> \<and> \<bar>bpmA - bpmB\<bar> < 0.25 * bpmA)"

section \<open>Properties of the fade curve\<close>

lemma length_createSCurveFade: "length (createSCurveFade s e n) = n"
  by (simp add: createSCurveFade_def)

lemma nth_createSCurveFade:
  "i < n \<Longrightarrow> createSCurveFade s e n ! i = sCurveSample s e n i"
  by (simp add: createSCurveFade_def)

lemma sCurveSample_first:
  assumes "2 \<le> n"
  shows "sCurveSample s e n 0 = Some (if e > s then s else e)"
proof (cases "e > s")
  case True
  then show ?thesis using assms by (simp add: sCurveSample_def)
next
  case False
  then show ?thesis using assms
    by (simp add: sCurveSample_def) (simp add: diff_divide_distrib)
qed

lemma sCurveSample_last:
  assumes "2 \<le> n"
  shows "sCurveSample s e n (n - 1) = Some (if e > s then e else s)"
proof -
  have one: "real (n - 1) / (real n - 1) = 1"
    using assms by (simp add: of_nat_diff)
  show ?thesis
  proof (cases "e > s")
    case True
    then show ?thesis using assms one
      by (simp add: sCurveSample_def) (simp add: diff_divide_distrib)
  next
    case False
    then show ?thesis using assms one by (simp add: sCurveSample_def)
  qed
qed

text \<open>
  Whatever the order of the two bounds, the samples never decrease with the index: for a
  fade-in the raised cosine rises from \<open>startValue\<close> to \<open>endValue\<close>, and for
  \<open>endValue \<le> startValue\<close> both the argument is mirrored and the factor
  \<open>endValue - startValue\<close> is negative, so the curve rises from \<open>endValue\<close> to \<open>startValue\<close>.
\<close>

lemma sCurveSample_mono:
  assumes n: "2 \<le> n" and ij: "i \<le> j" and jn: "j < n"
  shows "numLe (sCurveSample s e n i) (sCurveSample s e n j)"
proof -
  define d where "d = real n - 1"
  have d: "0 < d" using n by (simp add: d_def)
  define xi where "xi = real i / d"
  define xj where "xj = real j / d"
  have xij: "xi \<le> xj"
    using ij d by (simp add: xi_def xj_def divide_right_mono)
  have xi0: "0 \<le> xi" using d by (simp add: xi_def)
  have "real j \<le> d" using jn by (simp add: d_def)
  then have xj1: "xj \<le> 1" using d by (simp add: xj_def)
  show ?thesis
  proof (cases "e > s")
    case True
    have "cos (xj * pi) \<le> cos (xi * pi)"
    proof (rule cos_monotone_0_pi_le)
      show "0 \<le> xi * pi" using xi0 by simp
      show "xi * pi \<le> xj * pi" using xij by (simp add: mult_right_mono)
      show "xj * pi \<le> pi" using xj1 by (simp add: mult_le_cancel_right1)
    qed
    then have "0.5 * (1 - cos (xi * pi)) \<le> 0.5 * (1 - cos (xj * pi))" by simp
    moreover have "0 \<le> e - s" using True by simp
    ultimately
    have "(e - s) * (0.5 * (1 - cos (xi * pi))) \<le> (e - s) * (0.5 * (1 - cos (xj * pi)))"
      by (rule mult_left_mono)
    then show ?thesis
      using True n by (simp add: sCurveSample_def xi_def xj_def d_def)
  next
    case False
    have "cos ((1 - xi) * pi) \<le> cos ((1 - xj) * pi)"
    proof (rule cos_monotone_0_pi_le)
      show "0 \<le> (1 - xj) * pi" using xj1 by simp
      show "(1 - xj) * pi \<le> (1 - xi) * pi" using xij by (simp add: mult_right_mono)
      show "(1 - xi) * pi \<le> pi" using xi0 by (simp add: mult_le_cancel_right1)
    qed
    then have "0.5 * (1 - cos ((1 - xj) * pi)) \<le> 0.5 * (1 - cos ((1 - xi) * pi))" by simp
    moreover have "e - s \<le> 0" using False by simp
    ultimately
    have "(e - s) * (0.5 * (1 - cos ((1 - xi) * pi)))
            \<le> (e - s) * (0.5 * (1 - cos ((1 - xj) * pi)))"
      by (rule mult_left_mono_neg)
    then show ?thesis
      using False n by (simp add: sCurveSample_def xi_def xj_def d_def)
  qed
qed

lemma createSCurveFade_nonDecreasing:
  assumes "2 \<le> n"
  shows "nonDecreasing (createSCurveFade s e n)"
  unfolding nonDecreasing_def sorted_wrt_iff_nth_less
proof (intro allI impI)
  fix i j
  assume ij: "i < j" and "j < length (createSCurveFade s e n)"
  then have jn: "j < n" by (simp add: length_createSCurveFade)
  with ij have "i < n" by simp
  with jn ij assms show "numLe (createSCurveFade s e n ! i) (createSCurveFade s e n ! j)"
    by (simp add: nth_createSCurveFade sCurveSample_mono)
qed

text \<open>
  C1. The claim: the fade-out curve \<open>createSCurveFade(1, 0.0001, 512, 'out')\<close> has the sample
  \<open>1\<close> (the start value) at index 0 and the sample \<open>0.0001\<close> (the end value) at index 511.
  The code does the opposite: with \<open>endValue < startValue\<close> it mirrors \<open>x\<close> and multiplies by
  the negative \<open>endValue - startValue\<close>, so the sample at index 0 is the end value \<open>0.0001\<close>
  and the sample at index 511 is the start value \<open>1\<close>.
\<close>

theorem fadeOutCurve_endpoints_swapped:
  "createSCurveFade4 1 0.0001 512 (JString ''out'') ! 0 = Some 0.0001
   \<and> createSCurveFade4 1 0.0001 512 (JString ''out'') ! 511 = Some 1"
  by (simp add: createSCurveFade4_def nth_createSCurveFade sCurveSample_def)

text \<open>
  C2. The claim: for \<open>numPoints \<ge> 2\<close> the curve is non-increasing when
  \<open>endValue < startValue\<close> and non-decreasing when \<open>endValue > startValue\<close>. The second half
  holds (\<open>createSCurveFade_nonDecreasing\<close>); the first fails on the fade-out curve the engine
  itself requests, which rises from \<open>0.0001\<close> to \<open>1\<close>.
\<close>

theorem fadeOutCurve_not_nonIncreasing:
  "\<not> nonIncreasing (createSCurveFade 1 0.0001 512)
   \<and> nonDecreasing (createSCurveFade 1 0.0001 512)"
proof -
  have "\<not> numGe (createSCurveFade 1 0.0001 512 ! 0) (createSCurveFade 1 0.0001 512 ! 511)"
    by (simp add: nth_createSCurveFade sCurveSample_def)
  then have "\<not> nonIncreasing (createSCurveFade 1 0.0001 512)"
    unfolding nonIncreasing_def sorted_wrt_iff_nth_less
    by (metis length_createSCurveFade zero_less_numeral numeral_less_iff
          semiring_norm(76) semiring_norm(78) semiring_norm(81))
  moreover have "nonDecreasing (createSCurveFade 1 0.0001 512)"
    by (rule createSCurveFade_nonDecreasing) simp
  ultimately show ?thesis by simp
qed

text \<open>
  C10. The curve does not depend on the fourth argument of a call: any two direction values
  give the same curve, the direction being taken from \<open>endValue > startValue\<close> alone.
\<close>

theorem createSCurveFade_ignores_direction:
  "createSCurveFade4 startValue endValue numPoints d1
     = createSCurveFade4 startValue endValue numPoints d2"
  by (simp add: createSCurveFade4_def)

section \<open>Properties of the beat alignment\<close>

lemma foldl_closerTo_first_closest:
  "\<exists>k < length (x # xs).
      foldl (closerTo m) x xs = (x # xs) ! k
    \<and> (\<forall>j < length (x # xs). \<bar>(x # xs) ! k - m\<bar> \<le> \<bar>(x # xs) ! j - m\<bar>)
    \<and> (\<forall>j < k. \<bar>(x # xs) ! k - m\<bar> < \<bar>(x # xs) ! j - m\<bar>)"
proof (induction xs rule: rev_induct)
  case Nil
  then show ?case by simp
next
  case (snoc y ys)
  then obtain k where k: "k < length (x # ys)"
    and eq: "foldl (closerTo m) x ys = (x # ys) ! k"
    and least: "\<forall>j < length (x # ys). \<bar>(x # ys) ! k - m\<bar> \<le> \<bar>(x # ys) ! j - m\<bar>"
    and first: "\<forall>j < k. \<bar>(x # ys) ! k - m\<bar> < \<bar>(x # ys) ! j - m\<bar>"
    by blast
  let ?zs = "x # ys @ [y]"
  have old: "?zs ! j = (x # ys) ! j" if "j < length (x # ys)" for j
    using that nth_append [of "x # ys" "[y]" j] by simp
  have new: "?zs ! length (x # ys) = y"
    using nth_append_length [of "x # ys" y "[]"] by simp
  show ?case
  proof (cases "\<bar>y - m\<bar> < \<bar>(x # ys) ! k - m\<bar>")
    case True
    have res: "foldl (closerTo m) x (ys @ [y]) = ?zs ! length (x # ys)"
      using True eq new by (simp add: closerTo_def)
    have "\<bar>?zs ! length (x # ys) - m\<bar> \<le> \<bar>?zs ! j - m\<bar>" if "j < length ?zs" for j
    proof (cases "j < length (x # ys)")
      case True
      with least old [OF True] \<open>\<bar>y - m\<bar> < \<bar>(x # ys) ! k - m\<bar>\<close> new show ?thesis
        by (metis less_le_trans less_imp_le)
    next
      case False
      with that have "j = length (x # ys)" by simp
      then show ?thesis by simp
    qed
    moreover
    have "\<bar>?zs ! length (x # ys) - m\<bar> < \<bar>?zs ! j - m\<bar>" if "j < length (x # ys)" for j
      using least old [OF that] True new that by (metis less_le_trans)
    ultimately show ?thesis
      using res by (intro exI [of _ "length (x # ys)"]) simp
  next
    case False
    have res: "foldl (closerTo m) x (ys @ [y]) = ?zs ! k"
      using False eq old [OF k] by (simp add: closerTo_def)
    have "\<bar>?zs ! k - m\<bar> \<le> \<bar>?zs ! j - m\<bar>" if "j < length ?zs" for j
    proof (cases "j < length (x # ys)")
      case True
      with least old [OF True] old [OF k] show ?thesis by simp
    next
      case nlt: False
      with that have "j = length (x # ys)" by simp
      with False new old [OF k] show ?thesis by simp
    qed
    moreover
    have "\<bar>?zs ! k - m\<bar> < \<bar>?zs ! j - m\<bar>" if "j < k" for j
    proof -
      from that k have "j < length (x # ys)" by simp
      with first that old [OF k] old [of j] show ?thesis by simp
    qed
    ultimately show ?thesis
      using res k by (intro exI [of _ k]) simp
  qed
qed

lemma orNumber_find_first:
  "incoming \<noteq> [] \<Longrightarrow>
   orNumber (orElse (find laterThanTenth incoming) (index incoming 0)) 0
     = (case find laterThanTenth incoming of Some t \<Rightarrow> t | None \<Rightarrow> hd incoming)"
  by (cases incoming)
     (auto simp: index_def laterThanTenth_def split: option.splits
           dest!: find_Some_iff [THEN iffD1])

text \<open>
  When the beat data is absent on either side, or the incoming beat array is empty while
  the outgoing one is not, the offset is \<open>0\<close>.
\<close>

lemma calculateBeatAlignedStartOffset_absent:
  "beatsOf analysisA = None \<or> beatsOf analysisB = None \<Longrightarrow>
   calculateBeatAlignedStartOffset analysisA analysisB mixPoint w
     = (Inr 0, debugLog WarnNoBeatData w)"
  by (auto simp: calculateBeatAlignedStartOffset_def split: option.splits)

lemma calculateBeatAlignedStartOffset_incoming_empty:
  "beatsOf analysisA = Some outgoing \<Longrightarrow> outgoing \<noteq> [] \<Longrightarrow> beatsOf analysisB = Some [] \<Longrightarrow>
   fst (calculateBeatAlignedStartOffset analysisA analysisB mixPoint w) = Inr 0"
  by (cases outgoing) (simp_all add: calculateBeatAlignedStartOffset_def index_def)

text \<open>
  C4. The claim: the offset is \<open>0\<close> whenever either analysis is absent or either beat array
  is empty, the empty outgoing array included. With the outgoing array present and empty
  the guard lets the call through (an empty array is truthy) and \<open>reduce\<close>, called without an
  initial value, throws a \<open>TypeError\<close>: no offset is returned.
\<close>

theorem calculateBeatAlignedStartOffset_empty_outgoing_throws:
  "calculateBeatAlignedStartOffset
     (Some \<lparr>bpm = 120, beats = Some []\<rparr>) (Some \<lparr>bpm = 120, beats = Some [0.5, 1]\<rparr>) 10 newEngine
   = (Inl TypeError, newEngine)"
  by (simp add: calculateBeatAlignedStartOffset_def beatsOf_def)

text \<open>
  C8. With both beat arrays non-empty, the anchor \<open>closestBeatTime\<close> is the outgoing beat
  nearest to the mix point, the first such beat in the array on a tie, and the offset
  returned is the first incoming beat greater than \<open>0.1\<close>, or the first incoming beat when
  there is none. On the beats \<open>[10.0, 10.5, 11.0]\<close> with mix point \<open>10.4\<close> the anchor is
  \<open>10.5\<close>, and on the incoming beats \<open>[0.05, 0.6, 1.2]\<close> the offset is \<open>0.6\<close>.
\<close>

theorem calculateBeatAlignedStartOffset_aligned:
  "(beats a = Some outgoing \<and> outgoing \<noteq> [] \<and> beats b = Some incoming \<and> incoming \<noteq> [] \<longrightarrow>
     (\<exists>k < length outgoing.
         reduce (closerTo mixPoint) outgoing = Inr (outgoing ! k)
       \<and> (\<forall>j < length outgoing. \<bar>outgoing ! k - mixPoint\<bar> \<le> \<bar>outgoing ! j - mixPoint\<bar>)
       \<and> (\<forall>j < k. \<bar>outgoing ! k - mixPoint\<bar> < \<bar>outgoing ! j - mixPoint\<bar>)
       \<and> calculateBeatAlignedStartOffset (Some a) (Some b) mixPoint w
           = (let offset = (case find laterThanTenth incoming of
                              Some t \<Rightarrow> t | None \<Rightarrow> hd incoming)
              in (Inr offset, debugLog (LogAligning (outgoing ! k) offset) w))))
   \<and> reduce (closerTo 10.4) [10.0, 10.5, 11.0] = Inr 10.5
   \<and> fst (calculateBeatAlignedStartOffset
             (Some \<lparr>bpm = 120, beats = Some [10.0, 10.5, 11.0]\<rparr>)
             (Some \<lparr>bpm = 120, beats = Some [0.05, 0.6, 1.2]\<rparr>) 10.4 w) = Inr 0.6"
proof (intro conjI impI)
  assume h: "beats a = Some outgoing \<and> outgoing \<noteq> [] \<and> beats b = Some incoming \<and> incoming \<noteq> []"
  then obtain x xs where xs: "outgoing = x # xs" by (cases outgoing) auto
  from foldl_closerTo_first_closest [of x xs mixPoint]
  obtain k where k: "k < length outgoing"
    and eq: "foldl (closerTo mixPoint) x xs = outgoing ! k"
    and least: "\<forall>j < length outgoing. \<bar>outgoing ! k - mixPoint\<bar> \<le> \<bar>outgoing ! j - mixPoint\<bar>"
    and first: "\<forall>j < k. \<bar>outgoing ! k - mixPoint\<bar> < \<bar>outgoing ! j - mixPoint\<bar>"
    unfolding xs by blast
  have red: "reduce (closerTo mixPoint) outgoing = Inr (outgoing ! k)"
    using eq by (simp add: xs)
  have "calculateBeatAlignedStartOffset (Some a) (Some b) mixPoint w
      = (let offset = (case find laterThanTenth incoming of
                         Some t \<Rightarrow> t | None \<Rightarrow> hd incoming)
         in (Inr offset, debugLog (LogAligning (outgoing ! k) offset) w))"
    using h red orNumber_find_first [of incoming]
    by (simp add: calculateBeatAlignedStartOffset_def beatsOf_def Let_def)
  with k red least first
  show "\<exists>k < length outgoing.
         reduce (closerTo mixPoint) outgoing = Inr (outgoing ! k)
       \<and> (\<forall>j < length outgoing. \<bar>outgoing ! k - mixPoint\<bar> \<le> \<bar>outgoing ! j - mixPoint\<bar>)
       \<and> (\<forall>j < k. \<bar>outgoing ! k - mixPoint\<bar> < \<bar>outgoing ! j - mixPoint\<bar>)
       \<and> calculateBeatAlignedStartOffset (Some a) (Some b) mixPoint w
           = (let offset = (case find laterThanTenth incoming of
                              Some t \<Rightarrow> t | None \<Rightarrow> hd incoming)
              in (Inr offset, debugLog (LogAligning (outgoing ! k) offset) w))"
    by blast
next
  show "reduce (closerTo 10.4) [10.0, 10.5, 11.0] = Inr 10.5"
    by (simp add: closerTo_def)
next
  show "fst (calculateBeatAlignedStartOffset
             (Some \<lparr>bpm = 120, beats = Some [10.0, 10.5, 11.0]\<rparr>)
             (Some \<lparr>bpm = 120, beats = Some [0.05, 0.6, 1.2]\<rparr>) 10.4 w) = Inr 0.6"
    by (simp add: calculateBeatAlignedStartOffset_def beatsOf_def index_def laterThanTenth_def
          closerTo_def Let_def)
qed

text \<open>The theorem at the beats of the example.\<close>

theorem calculateBeatAlignedStartOffset_aligned_witness:
  "beats \<lparr>bpm = 120, beats = Some [10.0, 10.5, 11.0]\<rparr> = Some [10.0, 10.5, 11.0]
   \<and> [10.0, 10.5, 11.0] \<noteq> ([] :: real list)
   \<and> beats \<lparr>bpm = 124, beats = Some [0.05, 0.6, 1.2]\<rparr> = Some [0.05, 0.6, 1.2]
   \<and> [0.05, 0.6, 1.2] \<noteq> ([] :: real list)
   \<and> (\<exists>k < length [10.0, 10.5, 11.0 :: real].
         reduce (closerTo 10.4) [10.0, 10.5, 11.0] = Inr ([10.0, 10.5, 11.0] ! k)
       \<and> calculateBeatAlignedStartOffset
            (Some \<lparr>bpm = 120, beats = Some [10.0, 10.5, 11.0]\<rparr>)
            (Some \<lparr>bpm = 124, beats = Some [0.05, 0.6, 1.2]\<rparr>) 10.4 newEngine
           = (Inr 0.6, debugLog (LogAligning ([10.0, 10.5, 11.0] ! k) 0.6) newEngine))"
proof -
  let ?a = "\<lparr>bpm = 120, beats = Some [10.0, 10.5, 11.0]\<rparr>"
  let ?b = "\<lparr>bpm = 124, beats = Some [0.05, 0.6, 1.2]\<rparr>"
  have h: "beats ?a = Some [10.0, 10.5, 11.0] \<and> [10.0, 10.5, 11.0] \<noteq> ([] :: real list)
           \<and> beats ?b = Some [0.05, 0.6, 1.2] \<and> [0.05, 0.6, 1.2] \<noteq> ([] :: real list)"
    by simp
  have f: "find laterThanTenth [0.05, 0.6, 1.2] = Some 0.6"
    by (simp add: laterThanTenth_def)
  from calculateBeatAlignedStartOffset_aligned
         [of ?a "[10.0, 10.5, 11.0]" ?b "[0.05, 0.6, 1.2]" "10.4" newEngine,
          THEN conjunct1, rule_format, OF h]
  obtain k where "k < length [10.0, 10.5, 11.0 :: real]"
    and "reduce (closerTo 10.4) [10.0, 10.5, 11.0] = Inr ([10.0, 10.5, 11.0] ! k)"
    and "calculateBeatAlignedStartOffset (Some ?a) (Some ?b) 10.4 newEngine
           = (let offset = (case find laterThanTenth [0.05, 0.6, 1.2] of
                              Some t \<Rightarrow> t | None \<Rightarrow> hd [0.05, 0.6, 1.2])
              in (Inr offset, debugLog (LogAligning ([10.0, 10.5, 11.0] ! k) offset) newEngine))"
    by blast
  with h f show ?thesis
    by (intro conjI exI [of _ k]) (simp_all add: Let_def)
qed


section \<open>What a call leaves unchanged\<close>

lemma debugLog_eq:
  "debugLog entry w = w\<lparr>console := console w @ (if debugMode w then [entry] else [])\<rparr>"
  by (simp add: debugLog_def)

lemma calculateBeatAlignedStartOffset_frame:
  "calculateBeatAlignedStartOffset a b m w = (r, w') \<Longrightarrow>
   sameAudioState w w' \<and> isMixing w' = isMixing w \<and> debugMode w' = debugMode w
   \<and> offlineRenders w' = offlineRenders w"
  by (auto simp: calculateBeatAlignedStartOffset_def debugLog_eq Let_def sameAudioState_def
           split: option.splits sum.splits if_splits)

lemma resampleBufferForTempo_frame:
  "resampleBufferForTempo env sb a b w = (r, w') \<Longrightarrow>
   sameAudioState w w' \<and> isMixing w' = isMixing w \<and> debugMode w' = debugMode w"
  by (auto simp: resampleBufferForTempo_def debugLog_eq Let_def sameAudioState_def
           split: if_splits)

lemma scheduleCrossfade_isMixing:
  "isMixing (scheduleCrossfade env ct nt bA bB sB now mst cd w) = isMixing w"
  by (simp add: scheduleCrossfade_def createNode_def request_def syncCrossfadeAnimation_def
        debugLog_eq Let_def)

lemma scheduleCrossfade_timers:
  "timers (scheduleCrossfade env ct nt bA bB sB now mst cd w)
     = timers w @ [(mst - now + cd) * 1000]"
  by (simp add: scheduleCrossfade_def createNode_def request_def syncCrossfadeAnimation_def
        debugLog_eq Let_def)


lemma sameAudioState_refl: "sameAudioState w w"
  by (simp add: sameAudioState_def)

lemma sameAudioState_trans:
  "sameAudioState w w1 \<Longrightarrow> sameAudioState w1 w2 \<Longrightarrow> sameAudioState w w2"
  by (simp add: sameAudioState_def)

lemma tempoResampling_frame:
  "tempoResampling env nt a b w = (r, w') \<Longrightarrow>
   sameAudioState w w' \<and> isMixing w' = isMixing w \<and> debugMode w' = debugMode w"
  unfolding tempoResampling_def Let_def
  by (auto split: if_splits dest!: resampleBufferForTempo_frame
           simp: debugLog_eq sameAudioState_def)

lemma startAutoMix_outcomes:
  assumes nm: "\<not> isMixing w" and r: "startAutoMix env ct nt pos w = (r, w')"
  shows "(\<exists>err. r = Inl err \<and> isMixing w' \<and> sameAudioState w w' \<and> debugMode w' = debugMode w)
       \<or> (r = Inr False \<and> \<not> isMixing w' \<and> sameAudioState w w' \<and> debugMode w' = debugMode w)
       \<or> (r = Inr True \<and> isMixing w' \<and> (\<exists>t. timers w' = timers w @ [t]))"
proof -
  define w1 where "w1 = debugLog LogStarting (w\<lparr>isMixing := True\<rparr>)"
  have w1: "isMixing w1" "sameAudioState w w1" "debugMode w1 = debugMode w"
    by (simp_all add: w1_def debugLog_eq sameAudioState_def)
  show ?thesis
  proof (cases "\<exists>a b. analysis ct = Some a \<and> analysis nt = Some b")
    case False
    with nm r have "r = Inl TypeError \<and> w' = w1"
      by (auto simp: startAutoMix_def Let_def w1_def split: option.splits)
    with w1 show ?thesis by simp
  next
    case True
    then obtain a b where ab: "analysis ct = Some a" "analysis nt = Some b" by blast
    obtain rb w2 where t: "tempoResampling env nt a b w1 = (rb, w2)"
      by (cases "tempoResampling env nt a b w1") blast
    from tempoResampling_frame [OF t] w1
    have w2: "isMixing w2" "sameAudioState w w2" "debugMode w2 = debugMode w"
      by (auto intro: sameAudioState_trans)
    show ?thesis
    proof (cases rb)
      case (Inl err)
      with nm r ab t have "r = Inl err \<and> w' = w2"
        by (simp add: startAutoMix_def Let_def w1_def)
      with w2 show ?thesis by simp
    next
      case (Inr bufferB)
      define mixPoint where "mixPoint = duration (buffer ct) - getCrossfadeDuration env"
      obtain off w3 where c:
        "calculateBeatAlignedStartOffset (Some a) (Some b) mixPoint w2 = (off, w3)"
        by (cases "calculateBeatAlignedStartOffset (Some a) (Some b) mixPoint w2") blast
      from calculateBeatAlignedStartOffset_frame [OF c] w2
      have w3: "isMixing w3" "sameAudioState w w3" "debugMode w3 = debugMode w"
        by (auto intro: sameAudioState_trans)
      show ?thesis
      proof (cases off)
        case (Inl err)
        with nm r ab t Inr c have "r = Inl err \<and> w' = w3"
          by (simp add: startAutoMix_def Let_def w1_def mixPoint_def)
        with w3 show ?thesis by simp
      next
        case off: (Inr startTimeB)
        show ?thesis
        proof (cases "mixPoint - pos \<le> 0")
          case True
          with nm r ab t Inr c off
          have "r = Inr False \<and> w' = (debugLog WarnStartInPast w3)\<lparr>isMixing := False\<rparr>"
            by (simp add: startAutoMix_def Let_def w1_def mixPoint_def)
          with w3 show ?thesis by (simp add: debugLog_eq sameAudioState_def)
        next
          case False
          with nm r ab t Inr c off
          have "r = Inr True \<and> isMixing w' = isMixing w3
                \<and> (\<exists>t. timers w' = timers w3 @ [t])"
            by (auto simp: startAutoMix_def Let_def w1_def mixPoint_def
                  scheduleCrossfade_isMixing scheduleCrossfade_timers)
          with w3 show ?thesis by (simp add: sameAudioState_def)
        qed
      qed
    qed
  qed
qed

section \<open>At most one session\<close>

lemma simulateMixSession_frame:
  assumes "simulateMixSession env ct nt w = (r, w')"
  shows "sameAudioState w w' \<and> isMixing w' = isMixing w \<and> debugMode w' = debugMode w"
proof (cases "\<exists>ta tb a b. ct = Some ta \<and> nt = Some tb \<and> analysis ta = Some a \<and> analysis tb = Some b")
  case False
  with assms have "w' = w"
    by (auto simp: simulateMixSession_def split: option.splits)
  then show ?thesis by (simp add: sameAudioState_refl)
next
  case True
  then obtain ta tb a b where
    h: "ct = Some ta" "nt = Some tb" "analysis ta = Some a" "analysis tb = Some b" by blast
  define mixPoint where "mixPoint = duration (buffer ta) - getCrossfadeDuration env"
  define b' where "b' = (if \<bar>bpm a - bpm b\<bar> > bpm a * 0.03 \<and> \<bar>bpm a - bpm b\<bar> < bpm a * 0.25
                         then b\<lparr>bpm := bpm a\<rparr> else b)"
  obtain off w1 where c: "calculateBeatAlignedStartOffset (Some a) (Some b') mixPoint w = (off, w1)"
    by (cases "calculateBeatAlignedStartOffset (Some a) (Some b') mixPoint w") blast
  note f = calculateBeatAlignedStartOffset_frame [OF c]
  from assms h c have "w' = w1 \<or> (\<exists>e. w' = debugLog e w1)"
    unfolding simulateMixSession_def Let_def mixPoint_def b'_def
    by (auto split: option.splits sum.splits prod.splits if_splits)
  with f show ?thesis
    by (auto simp: debugLog_eq sameAudioState_def)
qed

lemma sessionInvariant_step:
  assumes "sessionInvariant w"
  shows "sessionInvariant (step w ev)"
proof (cases ev)
  case (StartAutoMix env ct nt pos)
  obtain r w' where r: "startAutoMix env ct nt pos w = (r, w')"
    by (cases "startAutoMix env ct nt pos w") blast
  show ?thesis
  proof (cases "isMixing w")
    case True
    with r have "w' = debugLog WarnAlreadyMixing w" by (simp add: startAutoMix_def)
    with assms StartAutoMix r show ?thesis
      by (simp add: sessionInvariant_def debugLog_eq)
  next
    case False
    with assms have "timers w = []" by (auto simp: sessionInvariant_def)
    with startAutoMix_outcomes [OF False r] StartAutoMix r show ?thesis
      by (auto simp: sessionInvariant_def sameAudioState_def)
  qed
next
  case (SimulateMixSession env ct nt)
  obtain r w' where r: "simulateMixSession env ct nt w = (r, w')"
    by (cases "simulateMixSession env ct nt w") blast
  from simulateMixSession_frame [OF r] assms SimulateMixSession r show ?thesis
    by (simp add: sessionInvariant_def sameAudioState_def)
next
  case (SetDebugMode enabled)
  with assms show ?thesis by (simp add: sessionInvariant_def setDebugMode_def)
next
  case TestAutoMix
  with assms show ?thesis by simp
next
  case (TimerFires i)
  with assms show ?thesis
    by (cases "timers w") (auto simp: sessionInvariant_def)
qed

lemma sessionInvariant_run:
  "sessionInvariant w \<Longrightarrow> sessionInvariant (run events w)"
  unfolding run_def
  by (induction events arbitrary: w) (simp_all add: sessionInvariant_step)

lemma sessionInvariant_newEngine: "sessionInvariant newEngine"
  by (simp add: sessionInvariant_def newEngine_def)

section \<open>The guard, the past mix point and the resampling decision\<close>

lemma locked_step:
  assumes "isMixing w" and "timers w = []"
  shows "isMixing (step w ev) \<and> timers (step w ev) = []"
proof (cases ev)
  case (StartAutoMix env ct nt pos)
  with assms show ?thesis by (simp add: startAutoMix_def debugLog_eq)
next
  case (SimulateMixSession env ct nt)
  obtain r w' where r: "simulateMixSession env ct nt w = (r, w')"
    by (cases "simulateMixSession env ct nt w") blast
  from simulateMixSession_frame [OF r] assms SimulateMixSession r show ?thesis
    by (simp add: sameAudioState_def)
next
  case (SetDebugMode enabled)
  with assms show ?thesis by (simp add: setDebugMode_def)
next
  case TestAutoMix
  with assms show ?thesis by simp
next
  case (TimerFires i)
  with assms show ?thesis by simp
qed

lemma locked_run:
  "isMixing w \<Longrightarrow> timers w = [] \<Longrightarrow> isMixing (run events w) \<and> timers (run events w) = []"
  unfolding run_def
  by (induction events arbitrary: w) (simp_all add: locked_step)

lemma resamplingCondition_nonzero:
  "isResamplingNeeded bpmA bpmB \<Longrightarrow> bpmA \<noteq> 0 \<and> bpmB \<noteq> 0"
  unfolding isResamplingNeeded_def by (cases "bpmA - bpmB \<ge> 0") auto

lemma tempoResampling_needed:
  "isResamplingNeeded (bpm a) (bpm b) \<Longrightarrow>
   \<exists>w'. tempoResampling env nt a b w = (startRendering env, w')
      \<and> length (offlineRenders w') = Suc (length (offlineRenders w))"
  using resamplingCondition_nonzero [of "bpm a" "bpm b"]
  by (simp add: tempoResampling_def resampleBufferForTempo_def Let_def isResamplingNeeded_def
        debugLog_eq mult.commute)

lemma tempoResampling_not_needed:
  "\<not> isResamplingNeeded (bpm a) (bpm b) \<Longrightarrow>
   tempoResampling env nt a b w = (Inr (buffer nt), w)"
  by (auto simp add: tempoResampling_def Let_def isResamplingNeeded_def mult.commute)


lemma calculateBeatAlignedStartOffset_returns:
  assumes "beats a = Some [] \<longrightarrow> beats b = None"
  shows "\<exists>off w'. calculateBeatAlignedStartOffset (Some a) (Some b) m w = (Inr off, w')"
proof (cases "beats a")
  case None
  then show ?thesis by (simp add: calculateBeatAlignedStartOffset_def beatsOf_def)
next
  case (Some outgoing)
  show ?thesis
  proof (cases "beats b")
    case None
    with Some show ?thesis by (simp add: calculateBeatAlignedStartOffset_def beatsOf_def)
  next
    case (Some incoming)
    with assms \<open>beats a = Some outgoing\<close> obtain x xs where "outgoing = x # xs"
      by (cases outgoing) auto
    with Some \<open>beats a = Some outgoing\<close> show ?thesis
      by (simp add: calculateBeatAlignedStartOffset_def beatsOf_def Let_def)
  qed
qed

text \<open>
  C5. While \<open>isMixing\<close> is set, \<open>startAutoMix\<close> returns \<open>false\<close> at once and leaves the engine
  as it was: no flag changes, no node is created, nothing is scheduled; the one trace is
  the console warning of debug mode. And over any history of an engine, from its
  construction on, at most one session is outstanding (at most one clearing timer is
  pending).
\<close>

theorem startAutoMix_rejected_while_mixing:
  "(isMixing w \<longrightarrow>
      startAutoMix env currentTrack nextTrack currentPosition w
        = (Inr False, w\<lparr>console := console w @ (if debugMode w then [WarnAlreadyMixing] else [])\<rparr>))
   \<and> length (timers (run events newEngine)) \<le> 1"
proof
  show "isMixing w \<longrightarrow>
      startAutoMix env currentTrack nextTrack currentPosition w
        = (Inr False, w\<lparr>console := console w @ (if debugMode w then [WarnAlreadyMixing] else [])\<rparr>)"
    by (simp add: startAutoMix_def debugLog_eq)
next
  from sessionInvariant_run [OF sessionInvariant_newEngine, of events]
  show "length (timers (run events newEngine)) \<le> 1"
    by (simp add: sessionInvariant_def)
qed

text \<open>
  A second call right after a successful one: the first call leaves \<open>isMixing\<close> set, the
  second returns \<open>false\<close>.
\<close>

lemma example_armed:
  "fst (startAutoMix (exampleEnvironment (Inl RenderingError))
          (exampleTrack 120 (Some [10, 10.5, 11])) (exampleTrack 121 (Some [0.05, 0.6, 1.2]))
          100 newEngine) = Inr True"
  by (simp add: startAutoMix_def tempoResampling_def calculateBeatAlignedStartOffset_def
        beatsOf_def exampleTrack_def exampleEnvironment_def newEngine_def debugLog_def
        Let_def)


theorem startAutoMix_rejected_while_mixing_witness:
  "isMixing (snd (startAutoMix (exampleEnvironment (Inl RenderingError))
          (exampleTrack 120 (Some [10, 10.5, 11])) (exampleTrack 121 (Some [0.05, 0.6, 1.2]))
          100 newEngine))
   \<and> fst (startAutoMix (exampleEnvironment (Inl RenderingError))
        (exampleTrack 121 (Some [0.05, 0.6, 1.2])) (exampleTrack 120 (Some [10, 10.5, 11])) 20
        (snd (startAutoMix (exampleEnvironment (Inl RenderingError))
          (exampleTrack 120 (Some [10, 10.5, 11])) (exampleTrack 121 (Some [0.05, 0.6, 1.2]))
          100 newEngine)))
      = Inr False
   \<and> length (timers (run [StartAutoMix (exampleEnvironment (Inl RenderingError))
                             (exampleTrack 120 (Some [10, 10.5, 11]))
                             (exampleTrack 121 (Some [0.05, 0.6, 1.2])) 100,
                           StartAutoMix (exampleEnvironment (Inl RenderingError))
                             (exampleTrack 121 (Some [0.05, 0.6, 1.2]))
                             (exampleTrack 120 (Some [10, 10.5, 11])) 20] newEngine)) \<le> 1"
proof -
  let ?env = "exampleEnvironment (Inl RenderingError)"
  let ?A = "exampleTrack 120 (Some [10, 10.5, 11])"
  let ?B = "exampleTrack 121 (Some [0.05, 0.6, 1.2])"
  let ?w = "snd (startAutoMix ?env ?A ?B 100 newEngine)"
  have nm: "\<not> isMixing newEngine" by (simp add: newEngine_def)
  have r: "startAutoMix ?env ?A ?B 100 newEngine = (Inr True, ?w)"
    using example_armed by (simp add: prod_eq_iff)
  from startAutoMix_outcomes [OF nm r] have m: "isMixing ?w" by simp
  from startAutoMix_rejected_while_mixing
         [of ?w ?env ?B ?A 20 "[StartAutoMix ?env ?A ?B 100, StartAutoMix ?env ?B ?A 20]"] m
  show ?thesis by simp
qed


text \<open>
  C6. When the mix start time computed is not in the future, that is when
  \<open>mixPoint - currentPosition \<le> 0\<close> (over the reals \<open>now + d \<le> now\<close> is \<open>d \<le> 0\<close>), the call
  returns \<open>false\<close>, creates no node, schedules nothing and clears \<open>isMixing\<close>. The start time
  is computed when the call gets that far: the guard is passed, both analyses are present,
  a resampling that is needed has resolved, and the beat alignment has not thrown. The
  nodes meant are those of the audio context; an offline render made for the resampling
  before the check stays made, and is recorded in \<open>offlineRenders\<close>.
\<close>

theorem startAutoMix_mix_point_passed:
  assumes nm: "\<not> isMixing w"
    and a: "analysis currentTrack = Some analysisA"
    and b: "analysis nextTrack = Some analysisB"
    and render: "isResamplingNeeded (bpm analysisA) (bpm analysisB)
                   \<longrightarrow> (\<exists>resampled. startRendering env = Inr resampled)"
    and nonempty: "beats analysisA = Some [] \<longrightarrow> beats analysisB = None"
    and past: "duration (buffer currentTrack) - getCrossfadeDuration env - currentPosition \<le> 0"
    and r: "startAutoMix env currentTrack nextTrack currentPosition w = (r, w')"
  shows "r = Inr False \<and> \<not> isMixing w' \<and> sameAudioState w w' \<and> debugMode w' = debugMode w"
proof -
  define w1 where "w1 = debugLog LogStarting (w\<lparr>isMixing := True\<rparr>)"
  have w1: "sameAudioState w w1" "debugMode w1 = debugMode w"
    by (simp_all add: w1_def debugLog_eq sameAudioState_def)
  obtain bufferB w2 where t: "tempoResampling env nextTrack analysisA analysisB w1 = (Inr bufferB, w2)"
  proof (cases "isResamplingNeeded (bpm analysisA) (bpm analysisB)")
    case True
    with render tempoResampling_needed [OF True, of env nextTrack w1] that show ?thesis
      by auto
  next
    case False
    from tempoResampling_not_needed [OF False] that show ?thesis by blast
  qed
  from tempoResampling_frame [OF t] w1
  have w2: "sameAudioState w w2" "debugMode w2 = debugMode w"
    by (auto intro: sameAudioState_trans)
  define mixPoint where "mixPoint = duration (buffer currentTrack) - getCrossfadeDuration env"
  from calculateBeatAlignedStartOffset_returns [OF nonempty]
  obtain startTimeB w3 where c:
    "calculateBeatAlignedStartOffset (Some analysisA) (Some analysisB) mixPoint w2
       = (Inr startTimeB, w3)"
    by blast
  from calculateBeatAlignedStartOffset_frame [OF c] w2
  have w3: "sameAudioState w w3" "debugMode w3 = debugMode w"
    by (auto intro: sameAudioState_trans)
  from nm r a b t c past
  have "r = Inr False \<and> w' = (debugLog WarnStartInPast w3)\<lparr>isMixing := False\<rparr>"
    by (simp add: startAutoMix_def Let_def w1_def mixPoint_def)
  with w3 show ?thesis by (simp add: debugLog_eq sameAudioState_def)
qed


lemma scheduleCrossfade_offlineRenders:
  "offlineRenders (scheduleCrossfade env ct nt bA bB sB now mst cd w) = offlineRenders w"
  by (simp add: scheduleCrossfade_def createNode_def request_def syncCrossfadeAnimation_def
        debugLog_eq Let_def)

lemma startAutoMix_offlineRenders:
  assumes nm: "\<not> isMixing w"
    and a: "analysis ct = Some a" and b: "analysis nt = Some b"
    and t: "tempoResampling env nt a b (debugLog LogStarting (w\<lparr>isMixing := True\<rparr>)) = (rb, w2)"
  shows "offlineRenders (snd (startAutoMix env ct nt pos w)) = offlineRenders w2"
proof -
  define mixPoint where "mixPoint = duration (buffer ct) - getCrossfadeDuration env"
  obtain off w3 where c:
    "calculateBeatAlignedStartOffset (Some a) (Some b) mixPoint w2 = (off, w3)"
    by (cases "calculateBeatAlignedStartOffset (Some a) (Some b) mixPoint w2") blast
  from calculateBeatAlignedStartOffset_frame [OF c]
  have w3: "offlineRenders w3 = offlineRenders w2" by simp
  show ?thesis
  proof (cases rb)
    case (Inl err)
    with nm a b t show ?thesis by (simp add: startAutoMix_def Let_def)
  next
    case (Inr bufferB)
    show ?thesis
    proof (cases off)
      case (Inl err)
      with nm a b t c Inr w3 show ?thesis by (simp add: startAutoMix_def Let_def mixPoint_def)
    next
      case off: (Inr startTimeB)
      with nm a b t c Inr w3 show ?thesis
        by (simp add: startAutoMix_def Let_def mixPoint_def debugLog_eq
              scheduleCrossfade_offlineRenders)
    qed
  qed
qed

lemma inline_condition:
  "(x * 0.03 < \<bar>x - y\<bar> \<and> \<bar>x - y\<bar> < x * 0.25) = isResamplingNeeded x y"
  by (simp add: isResamplingNeeded_def mult.commute)

lemma simulateMixSession_report:
  assumes a: "analysis ct = Some a" and b: "analysis nt = Some b"
    and nonempty: "beats a \<noteq> Some []"
  shows "\<exists>report w'. simulateMixSession env (Some ct) (Some nt) w = (Inr (Report report), w')
           \<and> resamplingNeeded report = isResamplingNeeded (bpm a) (bpm b)"
proof -
  define mixPoint where "mixPoint = duration (buffer ct) - getCrossfadeDuration env"
  have red: "beats a = Some outgoing \<Longrightarrow> \<exists>c. reduce (closerTo mixPoint) outgoing = Inr c"
    for outgoing
    using nonempty by (cases outgoing) auto
  show ?thesis
  proof (cases "isResamplingNeeded (bpm a) (bpm b)")
    case True
    define b' where "b' = b\<lparr>bpm := bpm a\<rparr>"
    from nonempty calculateBeatAlignedStartOffset_returns [of a b' mixPoint w]
    obtain off w1 where c:
      "calculateBeatAlignedStartOffset (Some a) (Some b') mixPoint w = (Inr off, w1)"
      by auto
    show ?thesis
      using a b c True red
      unfolding simulateMixSession_def Let_def mixPoint_def b'_def inline_condition
      by (auto split: option.splits sum.splits)
  next
    case False
    from nonempty calculateBeatAlignedStartOffset_returns [of a b mixPoint w]
    obtain off w1 where c:
      "calculateBeatAlignedStartOffset (Some a) (Some b) mixPoint w = (Inr off, w1)"
      by auto
    show ?thesis
      using a b c False red
      unfolding simulateMixSession_def Let_def mixPoint_def inline_condition
      by (auto split: option.splits sum.splits)
  qed
qed

text \<open>A call at position 195 of a 200 second track, with a 10 second crossfade.\<close>

theorem startAutoMix_mix_point_passed_witness:
  "\<not> isMixing newEngine
   \<and> analysis (exampleTrack 120 (Some [10, 10.5, 11])) = Some \<lparr>bpm = 120, beats = Some [10, 10.5, 11]\<rparr>
   \<and> analysis (exampleTrack 121 (Some [0.05, 0.6, 1.2]))
       = Some \<lparr>bpm = 121, beats = Some [0.05, 0.6, 1.2]\<rparr>
   \<and> \<not> isResamplingNeeded 120 121
   \<and> duration (buffer (exampleTrack 120 (Some [10, 10.5, 11])))
       - getCrossfadeDuration (exampleEnvironment (Inl RenderingError)) - 195 \<le> 0
   \<and> fst (startAutoMix (exampleEnvironment (Inl RenderingError))
            (exampleTrack 120 (Some [10, 10.5, 11])) (exampleTrack 121 (Some [0.05, 0.6, 1.2]))
            195 newEngine) = Inr False
   \<and> \<not> isMixing (snd (startAutoMix (exampleEnvironment (Inl RenderingError))
            (exampleTrack 120 (Some [10, 10.5, 11])) (exampleTrack 121 (Some [0.05, 0.6, 1.2]))
            195 newEngine))
   \<and> sameAudioState newEngine (snd (startAutoMix (exampleEnvironment (Inl RenderingError))
            (exampleTrack 120 (Some [10, 10.5, 11])) (exampleTrack 121 (Some [0.05, 0.6, 1.2]))
            195 newEngine))"
proof -
  let ?env = "exampleEnvironment (Inl RenderingError)"
  let ?A = "exampleTrack 120 (Some [10, 10.5, 11])"
  let ?B = "exampleTrack 121 (Some [0.05, 0.6, 1.2])"
  let ?a = "\<lparr>bpm = 120, beats = Some [10, 10.5, 11]\<rparr>"
  let ?b = "\<lparr>bpm = 121, beats = Some [0.05, 0.6, 1.2]\<rparr>"
  have nm: "\<not> isMixing newEngine" by (simp add: newEngine_def)
  have a: "analysis ?A = Some ?a" by (simp add: exampleTrack_def)
  have b: "analysis ?B = Some ?b" by (simp add: exampleTrack_def)
  have n: "\<not> isResamplingNeeded 120 121" by (simp add: isResamplingNeeded_def)
  then have render: "isResamplingNeeded (bpm ?a) (bpm ?b)
                   \<longrightarrow> (\<exists>resampled. startRendering ?env = Inr resampled)" by simp
  have nonempty: "beats ?a = Some [] \<longrightarrow> beats ?b = None" by simp
  have past: "duration (buffer ?A) - getCrossfadeDuration ?env - 195 \<le> 0"
    by (simp add: exampleTrack_def exampleEnvironment_def)
  have r: "startAutoMix ?env ?A ?B 195 newEngine
             = (fst (startAutoMix ?env ?A ?B 195 newEngine),
                snd (startAutoMix ?env ?A ?B 195 newEngine))" by simp
  from startAutoMix_mix_point_passed [OF nm a b render nonempty past r] nm a b n past
  show ?thesis by simp
qed



text \<open>
  C7. \<open>startAutoMix\<close> starts an offline render exactly when
  \<open>0.03 * bpmA < |bpmA - bpmB| < 0.25 * bpmA\<close>, and \<open>simulateMixSession\<close> reports
  \<open>resamplingNeeded\<close> by the same condition; the condition is false for 120 and 123.5, true
  for 120 and 128, false for 120 and 155.
\<close>

theorem resampling_decision:
  "(\<not> isMixing w \<and> analysis currentTrack = Some analysisA \<and> analysis nextTrack = Some analysisB \<longrightarrow>
      (offlineRenders (snd (startAutoMix env currentTrack nextTrack currentPosition w))
         \<noteq> offlineRenders w)
        = isResamplingNeeded (bpm analysisA) (bpm analysisB))
   \<and> (analysis currentTrack = Some analysisA \<and> analysis nextTrack = Some analysisB
        \<and> beats analysisA \<noteq> Some [] \<longrightarrow>
      (\<exists>report. fst (simulateMixSession env (Some currentTrack) (Some nextTrack) w)
                   = Inr (Report report)
         \<and> resamplingNeeded report = isResamplingNeeded (bpm analysisA) (bpm analysisB)))
   \<and> \<not> isResamplingNeeded 120 123.5 \<and> isResamplingNeeded 120 128 \<and> \<not> isResamplingNeeded 120 155"
proof (intro conjI impI)
  assume h: "\<not> isMixing w \<and> analysis currentTrack = Some analysisA
             \<and> analysis nextTrack = Some analysisB"
  define w1 where "w1 = debugLog LogStarting (w\<lparr>isMixing := True\<rparr>)"
  have w1: "offlineRenders w1 = offlineRenders w" by (simp add: w1_def debugLog_eq)
  show "(offlineRenders (snd (startAutoMix env currentTrack nextTrack currentPosition w))
           \<noteq> offlineRenders w)
        = isResamplingNeeded (bpm analysisA) (bpm analysisB)"
  proof (cases "isResamplingNeeded (bpm analysisA) (bpm analysisB)")
    case True
    from tempoResampling_needed [OF True, of env nextTrack w1]
    obtain w2 where t: "tempoResampling env nextTrack analysisA analysisB w1
                          = (startRendering env, w2)"
      and len: "length (offlineRenders w2) = Suc (length (offlineRenders w1))" by blast
    from h t have "offlineRenders (snd (startAutoMix env currentTrack nextTrack currentPosition w))
                     = offlineRenders w2"
      unfolding w1_def by (intro startAutoMix_offlineRenders) simp_all
    with len w1 True show ?thesis by auto
  next
    case False
    from tempoResampling_not_needed [OF False, of env nextTrack w1] h
    have "offlineRenders (snd (startAutoMix env currentTrack nextTrack currentPosition w))
            = offlineRenders w1"
      unfolding w1_def by (intro startAutoMix_offlineRenders) simp_all
    with w1 False show ?thesis by simp
  qed
next
  assume "analysis currentTrack = Some analysisA \<and> analysis nextTrack = Some analysisB
          \<and> beats analysisA \<noteq> Some []"
  with simulateMixSession_report [of currentTrack analysisA nextTrack analysisB env w]
  show "\<exists>report. fst (simulateMixSession env (Some currentTrack) (Some nextTrack) w)
                   = Inr (Report report)
         \<and> resamplingNeeded report = isResamplingNeeded (bpm analysisA) (bpm analysisB)"
    by auto
qed (simp_all add: isResamplingNeeded_def)

text \<open>Tempos 120 and 128: the render is started, and the simulation reports it.\<close>

theorem resampling_decision_witness:
  "\<not> isMixing newEngine
   \<and> analysis (exampleTrack 120 (Some [10, 10.5, 11])) = Some \<lparr>bpm = 120, beats = Some [10, 10.5, 11]\<rparr>
   \<and> analysis (exampleTrack 128 (Some [0.05, 0.6, 1.2]))
       = Some \<lparr>bpm = 128, beats = Some [0.05, 0.6, 1.2]\<rparr>
   \<and> offlineRenders (snd (startAutoMix (exampleEnvironment (Inl RenderingError))
            (exampleTrack 120 (Some [10, 10.5, 11])) (exampleTrack 128 (Some [0.05, 0.6, 1.2]))
            100 newEngine)) \<noteq> offlineRenders newEngine
   \<and> (\<exists>report. fst (simulateMixSession (exampleEnvironment (Inl RenderingError))
                       (Some (exampleTrack 120 (Some [10, 10.5, 11])))
                       (Some (exampleTrack 128 (Some [0.05, 0.6, 1.2]))) newEngine)
                   = Inr (Report report)
         \<and> resamplingNeeded report)"
proof -
  let ?env = "exampleEnvironment (Inl RenderingError)"
  let ?A = "exampleTrack 120 (Some [10, 10.5, 11])"
  let ?B = "exampleTrack 128 (Some [0.05, 0.6, 1.2])"
  let ?a = "\<lparr>bpm = 120, beats = Some [10, 10.5, 11]\<rparr>"
  let ?b = "\<lparr>bpm = 128, beats = Some [0.05, 0.6, 1.2]\<rparr>"
  have nm: "\<not> isMixing newEngine" by (simp add: newEngine_def)
  have a: "analysis ?A = Some ?a" by (simp add: exampleTrack_def)
  have b: "analysis ?B = Some ?b" by (simp add: exampleTrack_def)
  have n: "isResamplingNeeded 120 128" by (simp add: isResamplingNeeded_def)
  from resampling_decision [of newEngine ?A ?a ?B ?b ?env 100] nm a b n
  show ?thesis by simp
qed


section \<open>Exceptional exits\<close>

text \<open>
  C9. When \<open>startAutoMix\<close> leaves with an exception after it has set \<open>isMixing\<close>, the flag
  stays set and no timer was set to clear it; from then on, whatever is called and
  whatever fires, \<open>isMixing\<close> stays set and every \<open>startAutoMix\<close> returns \<open>false\<close>. Two ways to
  get there: the resampling is needed and the render is rejected, or the outgoing
  analysis has an empty beat array while the incoming one has beats.
\<close>

theorem exceptional_exit_keeps_isMixing:
  "(w = run history newEngine \<and> \<not> isMixing w
      \<and> startAutoMix env currentTrack nextTrack currentPosition w = (Inl err, w') \<longrightarrow>
      isMixing w' \<and> timers w' = timers w \<and> timers w' = []
      \<and> (\<forall>events. isMixing (run events w')
            \<and> (\<forall>env2 track1 track2 position.
                  fst (startAutoMix env2 track1 track2 position (run events w')) = Inr False)))
   \<and> (\<not> isMixing w \<and> analysis currentTrack = Some analysisA \<and> analysis nextTrack = Some analysisB
        \<and> isResamplingNeeded (bpm analysisA) (bpm analysisB) \<and> startRendering env = Inl err \<longrightarrow>
      fst (startAutoMix env currentTrack nextTrack currentPosition w) = Inl err)
   \<and> (\<not> isMixing w \<and> analysis currentTrack = Some analysisA \<and> analysis nextTrack = Some analysisB
        \<and> beats analysisA = Some [] \<and> beats analysisB = Some incoming \<longrightarrow>
      (\<exists>e. fst (startAutoMix env currentTrack nextTrack currentPosition w) = Inl e))"
proof -
  have exit: "w = run history newEngine \<and> \<not> isMixing w
      \<and> startAutoMix env currentTrack nextTrack currentPosition w = (Inl err, w') \<longrightarrow>
      isMixing w' \<and> timers w' = timers w \<and> timers w' = []
      \<and> (\<forall>events. isMixing (run events w')
            \<and> (\<forall>env2 track1 track2 position.
                  fst (startAutoMix env2 track1 track2 position (run events w')) = Inr False))"
  proof (rule impI)
    assume h: "w = run history newEngine \<and> \<not> isMixing w
        \<and> startAutoMix env currentTrack nextTrack currentPosition w = (Inl err, w')"
    then have nm: "\<not> isMixing w"
      and r: "startAutoMix env currentTrack nextTrack currentPosition w = (Inl err, w')"
      by blast+
    from h sessionInvariant_run [OF sessionInvariant_newEngine, of history] nm
    have tw: "timers w = []" by (auto simp: sessionInvariant_def)
    from startAutoMix_outcomes [OF nm r]
    have w': "isMixing w'" "timers w' = timers w" by (auto simp: sameAudioState_def)
    have later: "isMixing (run events w')
          \<and> (\<forall>env2 track1 track2 position.
                fst (startAutoMix env2 track1 track2 position (run events w')) = Inr False)"
      for events
    proof -
      from locked_run [of w' events] w' tw have "isMixing (run events w')" by simp
      then show ?thesis by (simp add: startAutoMix_def)
    qed
    from w' tw later
    show "isMixing w' \<and> timers w' = timers w \<and> timers w' = []
        \<and> (\<forall>events. isMixing (run events w')
              \<and> (\<forall>env2 track1 track2 position.
                    fst (startAutoMix env2 track1 track2 position (run events w')) = Inr False))"
      by simp
  qed
  have rejected: "\<not> isMixing w \<and> analysis currentTrack = Some analysisA
        \<and> analysis nextTrack = Some analysisB
        \<and> isResamplingNeeded (bpm analysisA) (bpm analysisB) \<and> startRendering env = Inl err \<longrightarrow>
      fst (startAutoMix env currentTrack nextTrack currentPosition w) = Inl err"
  proof (rule impI)
    assume h: "\<not> isMixing w \<and> analysis currentTrack = Some analysisA
          \<and> analysis nextTrack = Some analysisB
          \<and> isResamplingNeeded (bpm analysisA) (bpm analysisB) \<and> startRendering env = Inl err"
    then have needed: "isResamplingNeeded (bpm analysisA) (bpm analysisB)" by simp
    from tempoResampling_needed [OF needed, of env nextTrack
           "debugLog LogStarting (w\<lparr>isMixing := True\<rparr>)"]
    obtain w2 where "tempoResampling env nextTrack analysisA analysisB
                       (debugLog LogStarting (w\<lparr>isMixing := True\<rparr>)) = (startRendering env, w2)"
      by blast
    with h show "fst (startAutoMix env currentTrack nextTrack currentPosition w) = Inl err"
      by (simp add: startAutoMix_def Let_def)
  qed
  have empty: "\<not> isMixing w \<and> analysis currentTrack = Some analysisA
        \<and> analysis nextTrack = Some analysisB
        \<and> beats analysisA = Some [] \<and> beats analysisB = Some incoming \<longrightarrow>
      (\<exists>e. fst (startAutoMix env currentTrack nextTrack currentPosition w) = Inl e)"
  proof (rule impI)
    assume h: "\<not> isMixing w \<and> analysis currentTrack = Some analysisA
          \<and> analysis nextTrack = Some analysisB
          \<and> beats analysisA = Some [] \<and> beats analysisB = Some incoming"
    obtain rb w2 where t: "tempoResampling env nextTrack analysisA analysisB
                       (debugLog LogStarting (w\<lparr>isMixing := True\<rparr>)) = (rb, w2)"
      by (cases "tempoResampling env nextTrack analysisA analysisB
                       (debugLog LogStarting (w\<lparr>isMixing := True\<rparr>))") blast
    from h have c: "calculateBeatAlignedStartOffset (Some analysisA) (Some analysisB) m w2
                      = (Inl TypeError, w2)" for m
      by (simp add: calculateBeatAlignedStartOffset_def beatsOf_def)
    from h t c show "\<exists>e. fst (startAutoMix env currentTrack nextTrack currentPosition w) = Inl e"
      by (cases rb) (simp_all add: startAutoMix_def Let_def)
  qed
  show ?thesis
    by (intro conjI) (rule exit, rule rejected, rule empty)
qed

text \<open>The first call on a new engine, with an empty outgoing beat array.\<close>

theorem exceptional_exit_keeps_isMixing_witness:
  "newEngine = run [] newEngine \<and> \<not> isMixing newEngine
   \<and> fst (startAutoMix (exampleEnvironment (Inr \<lparr>duration = 200, numberOfChannels = 2, sampleRate = 44100\<rparr>))
            (exampleTrack 120 (Some [])) (exampleTrack 121 (Some [0.05, 0.6, 1.2]))
            100 newEngine) = Inl TypeError
   \<and> isMixing (snd (startAutoMix (exampleEnvironment (Inr \<lparr>duration = 200, numberOfChannels = 2, sampleRate = 44100\<rparr>))
            (exampleTrack 120 (Some [])) (exampleTrack 121 (Some [0.05, 0.6, 1.2]))
            100 newEngine))
   \<and> (\<forall>events. isMixing (run events (snd (startAutoMix (exampleEnvironment (Inr \<lparr>duration = 200, numberOfChannels = 2, sampleRate = 44100\<rparr>))
            (exampleTrack 120 (Some [])) (exampleTrack 121 (Some [0.05, 0.6, 1.2]))
            100 newEngine))))"
proof -
  let ?env = "exampleEnvironment (Inr \<lparr>duration = 200, numberOfChannels = 2, sampleRate = 44100\<rparr>)"
  let ?A = "exampleTrack 120 (Some [])"
  let ?B = "exampleTrack 121 (Some [0.05, 0.6, 1.2])"
  let ?w = "snd (startAutoMix ?env ?A ?B 100 newEngine)"
  have nm: "\<not> isMixing newEngine" by (simp add: newEngine_def)
  have e: "fst (startAutoMix ?env ?A ?B 100 newEngine) = Inl TypeError"
    by (simp add: startAutoMix_def tempoResampling_def calculateBeatAlignedStartOffset_def
        beatsOf_def exampleTrack_def exampleEnvironment_def newEngine_def debugLog_def Let_def)
  then have r: "startAutoMix ?env ?A ?B 100 newEngine = (Inl TypeError, ?w)"
    by (simp add: prod_eq_iff)
  have h: "newEngine = run [] newEngine \<and> \<not> isMixing newEngine
           \<and> startAutoMix ?env ?A ?B 100 newEngine = (Inl TypeError, ?w)"
    using nm r by (simp add: run_def)
  from exceptional_exit_keeps_isMixing
         [of newEngine "[]" ?env ?A ?B 100 TypeError ?w, THEN conjunct1, rule_format, OF h]
       h e
  show ?thesis by simp
qed


text \<open>
  C3. The claim: when the offline resampling fails, \<open>startAutoMix\<close> falls back to the
  original buffer with a warning, and the mix completes. The code has no handler around
  the \<open>await\<close>: with tempos 120 and 128 and a rejected render the call is rejected with the
  render's error, after the debug messages of the start, the resampling and the render and
  no warning; no node is created, nothing is scheduled, and \<open>isMixing\<close> stays set.
\<close>

theorem startAutoMix_rejected_render_propagates:
  "startAutoMix (exampleEnvironment (Inl RenderingError))
     (exampleTrack 120 (Some [10, 10.5, 11])) (exampleTrack 128 (Some [0.05, 0.6, 1.2]))
     100 (setDebugMode True newEngine)
   = (Inl RenderingError,
      newEngine\<lparr> isMixing := True, debugMode := True,
        offlineRenders :=
          [\<lparr> render_channels = 2, render_length = 9408000, render_sampleRate = 44100,
             render_playbackRate = 120 / 128,
             render_source = \<lparr>duration = 200, numberOfChannels = 2, sampleRate = 44100\<rparr> \<rparr>],
        console := [LogDebugMode True, LogStarting, LogResampling 128 120,
                    LogOfflineRender (120 / 128)] \<rparr>)"
  by (simp add: startAutoMix_def tempoResampling_def resampleBufferForTempo_def
        exampleTrack_def exampleEnvironment_def newEngine_def setDebugMode_def debugLog_def
        Let_def)

end
